theory Spec2Isabelle
  imports Main
begin

section \<open>The notify-send output plugin of tinct\<close>

text \<open>
  A shallow embedding of \<^verbatim>\<open>contrib/notify-send.py\<close>. The plugin reads one JSON
  document from standard input, composes a title and a body from it and hands both to the
  external program \<^verbatim>\<open>notify-send\<close>.

  Scope of the model.
  \<^item> A value is what \<^verbatim>\<open>json.load\<close> returns: \<^verbatim>\<open>None\<close>, a bool, an int, a str,
    a list, or a dict with str keys. JSON numbers with a fraction or an exponent (Python
    floats) are not modelled.
  \<^item> A dict is an association list in insertion order; \<^verbatim>\<open>json.load\<close> yields
    distinct keys, and every lookup goes through \<open>map_of\<close>.
  \<^item> Text is a \<open>string\<close>, one \<open>char\<close> per character. The operations that look
    inside a text (\<^verbatim>\<open>upper\<close>, \<^verbatim>\<open>title\<close>, \<^verbatim>\<open>repr\<close>, \<^verbatim>\<open>json.dumps\<close>)
    are modelled for ASCII text. The two non-ASCII marks the program prints are written as
    their UTF-8 bytes.
  \<^item> An exception that the program does not catch is a value of \<open>py_exn\<close>; the
    interpreter then ends the process with status 1.
\<close>

subsection \<open>Python values\<close>

datatype pyval =
    PNone
  | PBool bool
  | PInt int
  | PStr string
  | PList "pyval list"
  | PDict "(string \<times> pyval) list"

datatype py_exn = TypeError | AttributeError | KeyError

type_synonym pydict = "(string \<times> pyval) list"

text \<open>\<^verbatim>\<open>d.get(k, default)\<close> and \<^verbatim>\<open>k in d\<close> on a dict.\<close>

definition dict_get :: "pydict \<Rightarrow> string \<Rightarrow> pyval \<Rightarrow> pyval" where
  "dict_get d k dflt = (case map_of d k of None \<Rightarrow> dflt | Some v \<Rightarrow> v)"

definition dict_has :: "pydict \<Rightarrow> string \<Rightarrow> bool" where
  "dict_has d k = (case map_of d k of None \<Rightarrow> False | Some v \<Rightarrow> True)"

text \<open>Truth value of an object, as \<^verbatim>\<open>if x:\<close>, \<^verbatim>\<open>x or y\<close> and \<^verbatim>\<open>x and y\<close> test it.\<close>

fun truthy :: "pyval \<Rightarrow> bool" where
  "truthy PNone = False"
| "truthy (PBool b) = b"
| "truthy (PInt n) = (n \<noteq> 0)"
| "truthy (PStr s) = (s \<noteq> [])"
| "truthy (PList vs) = (vs \<noteq> [])"
| "truthy (PDict kvs) = (kvs \<noteq> [])"

text \<open>\<^verbatim>\<open>x or y\<close>\<close>

definition py_or :: "pyval \<Rightarrow> pyval \<Rightarrow> pyval" where
  "py_or x y = (if truthy x then x else y)"

subsection \<open>Text\<close>

abbreviation NL :: char where
  "NL \<equiv> CHR 0x0A"

text \<open>\<^verbatim>\<open>sep.join(xs)\<close> on a list of str.\<close>

fun str_join :: "string \<Rightarrow> string list \<Rightarrow> string" where
  "str_join sep [] = []"
| "str_join sep [x] = x"
| "str_join sep (x # y # ys) = x @ sep @ str_join sep (y # ys)"

definition is_lower :: "char \<Rightarrow> bool" where
  "is_lower c = (let n = (of_char c :: nat) in 97 \<le> n \<and> n \<le> 122)"

definition is_upper :: "char \<Rightarrow> bool" where
  "is_upper c = (let n = (of_char c :: nat) in 65 \<le> n \<and> n \<le> 90)"

definition to_upper :: "char \<Rightarrow> char" where
  "to_upper c = (if is_lower c then char_of ((of_char c :: nat) - 32) else c)"

definition to_lower :: "char \<Rightarrow> char" where
  "to_lower c = (if is_upper c then char_of ((of_char c :: nat) + 32) else c)"

text \<open>\<^verbatim>\<open>s.upper()\<close>\<close>

definition upper :: "string \<Rightarrow> string" where
  "upper s = map to_upper s"

text \<open>
  \<^verbatim>\<open>s.title()\<close>: a letter that follows a letter is lower-cased, any other letter is
  upper-cased. The flag says whether the previous character was a letter.
\<close>

fun title_from :: "bool \<Rightarrow> string \<Rightarrow> string" where
  "title_from prev [] = []"
| "title_from prev (c # cs) =
     (if is_lower c then (if prev then c else to_upper c) # title_from True cs
      else if is_upper c then (if prev then to_lower c else c) # title_from True cs
      else c # title_from False cs)"

definition title_case :: "string \<Rightarrow> string" where
  "title_case s = title_from False s"

text \<open>\<^verbatim>\<open>str(n)\<close> for an int: decimal digits, with a minus sign below zero.\<close>

definition digit_char :: "nat \<Rightarrow> char" where
  "digit_char d = char_of (48 + d)"

fun str_nat :: "nat \<Rightarrow> string" where
  "str_nat n = (if n < 10 then [digit_char n] else str_nat (n div 10) @ [digit_char (n mod 10)])"

definition str_int :: "int \<Rightarrow> string" where
  "str_int i = (if i < 0 then CHR ''-'' # str_nat (nat (- i)) else str_nat (nat i))"

declare str_nat.simps [simp del]

text \<open>\<^verbatim>\<open>repr(s)\<close> for a str: quoted, with the escapes of the interpreter.\<close>

definition hex_digit :: "nat \<Rightarrow> char" where
  "hex_digit d = (if d < 10 then char_of (48 + d) else char_of (87 + d))"

definition repr_quote :: "string \<Rightarrow> char" where
  "repr_quote s = (if CHR 0x27 \<in> set s \<and> CHR 0x22 \<notin> set s then CHR 0x22 else CHR 0x27)"

definition repr_char :: "char \<Rightarrow> char \<Rightarrow> string" where
  "repr_char q c =
     (let n = (of_char c :: nat) in
      if c = q \<or> c = CHR 0x5C then [CHR 0x5C, c]
      else if c = CHR 0x09 then [CHR 0x5C, CHR ''t'']
      else if c = NL then [CHR 0x5C, CHR ''n'']
      else if c = CHR 0x0D then [CHR 0x5C, CHR ''r'']
      else if n < 32 \<or> n = 127 then [CHR 0x5C, CHR ''x'', hex_digit (n div 16), hex_digit (n mod 16)]
      else [c])"

definition repr_str :: "string \<Rightarrow> string" where
  "repr_str s = (let q = repr_quote s in [q] @ concat (map (repr_char q) s) @ [q])"

text \<open>\<^verbatim>\<open>repr(x)\<close> and \<^verbatim>\<open>str(x)\<close>; an f-string field \<^verbatim>\<open>{x}\<close> is \<^verbatim>\<open>str(x)\<close>.\<close>

fun py_repr :: "pyval \<Rightarrow> string"
  and repr_items :: "pyval list \<Rightarrow> string list"
  and repr_members :: "(string \<times> pyval) list \<Rightarrow> string list" where
  "py_repr PNone = ''None''"
| "py_repr (PBool b) = (if b then ''True'' else ''False'')"
| "py_repr (PInt n) = str_int n"
| "py_repr (PStr s) = repr_str s"
| "py_repr (PList vs) = ''['' @ str_join '', '' (repr_items vs) @ '']''"
| "py_repr (PDict kvs) = ''{'' @ str_join '', '' (repr_members kvs) @ ''}''"
| "repr_items [] = []"
| "repr_items (v # vs) = py_repr v # repr_items vs"
| "repr_members [] = []"
| "repr_members ((k, v) # kvs) = (repr_str k @ '': '' @ py_repr v) # repr_members kvs"

fun py_str :: "pyval \<Rightarrow> string" where
  "py_str (PStr s) = s"
| "py_str v = py_repr v"

text \<open>
  \<^verbatim>\<open>json.dumps(x, indent=2)\<close>, at nesting level \<open>lvl\<close>. Text is escaped as with
  \<^verbatim>\<open>ensure_ascii\<close>, the default.
\<close>

definition json_char :: "char \<Rightarrow> string" where
  "json_char c =
     (let n = (of_char c :: nat) in
      if c = CHR 0x22 then [CHR 0x5C, CHR 0x22]
      else if c = CHR 0x5C then [CHR 0x5C, CHR 0x5C]
      else if c = NL then [CHR 0x5C, CHR ''n'']
      else if c = CHR 0x0D then [CHR 0x5C, CHR ''r'']
      else if c = CHR 0x09 then [CHR 0x5C, CHR ''t'']
      else if c = CHR 0x08 then [CHR 0x5C, CHR ''b'']
      else if c = CHR 0x0C then [CHR 0x5C, CHR ''f'']
      else if n < 32 \<or> 127 \<le> n then
        [CHR 0x5C, CHR ''u'', CHR ''0'', CHR ''0'', hex_digit (n div 16), hex_digit (n mod 16)]
      else [c])"

definition json_str :: "string \<Rightarrow> string" where
  "json_str s = [CHR 0x22] @ concat (map json_char s) @ [CHR 0x22]"

definition pad :: "nat \<Rightarrow> string" where
  "pad lvl = replicate (2 * lvl) CHR '' ''"

fun json_dumps :: "nat \<Rightarrow> pyval \<Rightarrow> string"
  and json_items :: "nat \<Rightarrow> pyval list \<Rightarrow> string list"
  and json_members :: "nat \<Rightarrow> (string \<times> pyval) list \<Rightarrow> string list" where
  "json_dumps lvl PNone = ''null''"
| "json_dumps lvl (PBool b) = (if b then ''true'' else ''false'')"
| "json_dumps lvl (PInt n) = str_int n"
| "json_dumps lvl (PStr s) = json_str s"
| "json_dumps lvl (PList vs) =
     (if vs = [] then ''[]''
      else ''['' @ [NL] @ pad (Suc lvl)
           @ str_join ('','' @ [NL] @ pad (Suc lvl)) (json_items (Suc lvl) vs)
           @ [NL] @ pad lvl @ '']'')"
| "json_dumps lvl (PDict kvs) =
     (if kvs = [] then ''{}''
      else ''{'' @ [NL] @ pad (Suc lvl)
           @ str_join ('','' @ [NL] @ pad (Suc lvl)) (json_members (Suc lvl) kvs)
           @ [NL] @ pad lvl @ ''}'')"
| "json_items lvl [] = []"
| "json_items lvl (v # vs) = json_dumps lvl v # json_items lvl vs"
| "json_members lvl [] = []"
| "json_members lvl ((k, v) # kvs) =
     (json_str k @ '': '' @ json_dumps lvl v) # json_members lvl kvs"

text \<open>\<^verbatim>\<open>a in b\<close> for two str: \<open>a\<close> occurs in \<open>b\<close> as a contiguous piece.\<close>

fun starts_with :: "string \<Rightarrow> string \<Rightarrow> bool" where
  "starts_with [] s = True"
| "starts_with (a # as) [] = False"
| "starts_with (a # as) (c # cs) = (a = c \<and> starts_with as cs)"

fun str_contains :: "string \<Rightarrow> string \<Rightarrow> bool" where
  "str_contains a [] = (a = [])"
| "str_contains a (c # cs) = (starts_with a (c # cs) \<or> str_contains a cs)"

subsection \<open>Effects and results\<close>

text \<open>
  What a run does, in order: a \<^verbatim>\<open>print\<close> to standard output or to standard error
  (the text without the final newline that \<^verbatim>\<open>print\<close> adds), the read of standard
  input, and a call of \<^verbatim>\<open>subprocess.run\<close> with its argument list.
\<close>

datatype event =
    Stdout string
  | Stderr string
  | ReadStdin
  | Subprocess "pyval list"

text \<open>
  How a function ends: it returns, it calls \<^verbatim>\<open>sys.exit\<close>, or an exception leaves it.
\<close>

datatype outcome = Returned | SysExit nat | Raised py_exn

text \<open>The exit status of the process when \<^verbatim>\<open>main\<close> ends so.\<close>

fun exit_status :: "outcome \<Rightarrow> nat" where
  "exit_status Returned = 0"
| "exit_status (SysExit n) = n"
| "exit_status (Raised e) = 1"

text \<open>
  What \<^verbatim>\<open>json.load(sys.stdin)\<close> gives: a \<^verbatim>\<open>JSONDecodeError\<close> or another exception,
  each with its message, or the document.
\<close>

datatype stdin_result = JSONDecodeError string | ReadFailure string | Loaded pyval

text \<open>
  What \<^verbatim>\<open>subprocess.run(cmd, check=True, capture_output=True, text=True)\<close> does, as
  the host decides: it completes, it raises \<^verbatim>\<open>CalledProcessError\<close> (with the text of
  the exception and the captured standard error), it raises \<^verbatim>\<open>FileNotFoundError\<close>, or
  it raises something else (a \<^verbatim>\<open>TypeError\<close> for an argument that is no str, for one).
\<close>

datatype run_result =
    Completed
  | CalledProcessError string string
  | FileNotFoundError
  | RunRaised py_exn

subsection \<open>Plugin information (lines 38-51)\<close>

definition PLUGIN_INFO :: pydict where
  "PLUGIN_INFO =
     [ (''name'', PStr ''notify-send''),
       (''type'', PStr ''output''),
       (''version'', PStr ''1.0.1''),
       (''description'', PStr ''Send desktop notifications with colour palette information''),
       (''enabled'', PBool False),
       (''author'', PStr ''Tinct Contributors''),
       (''requires'', PList [PStr ''notify-send'']) ]"

definition show_plugin_info :: "event list" where
  "show_plugin_info = [Stdout (json_dumps 0 (PDict PLUGIN_INFO))]"

subsection \<open>Composing the notification (lines 65-125)\<close>

text \<open>
  \<^verbatim>\<open>theme_map.get(theme_type, "unknown")\<close> with
  \<^verbatim>\<open>theme_map = {0: "auto", 1: "dark", 2: "light"}\<close>. The key is hashed first: a
  list or a dict raises \<^verbatim>\<open>TypeError\<close>; \<^verbatim>\<open>False\<close> and \<^verbatim>\<open>True\<close> are the keys
  0 and 1.
\<close>

fun theme_map_get :: "pyval \<Rightarrow> py_exn + string" where
  "theme_map_get (PInt n) =
     Inr (if n = 0 then ''auto'' else if n = 1 then ''dark''
          else if n = 2 then ''light'' else ''unknown'')"
| "theme_map_get (PBool b) = Inr (if b then ''dark'' else ''auto'')"
| "theme_map_get PNone = Inr ''unknown''"
| "theme_map_get (PStr s) = Inr ''unknown''"
| "theme_map_get (PList vs) = Inl TypeError"
| "theme_map_get (PDict kvs) = Inl TypeError"

text \<open>Lines 65 and 70-71: \<^verbatim>\<open>theme_str\<close>.\<close>

definition theme_str :: "pydict \<Rightarrow> py_exn + string" where
  "theme_str palette =
     (let theme_type = dict_get palette ''theme_type'' (PInt 0) in
      case theme_map_get theme_type of
        Inl e \<Rightarrow> Inl e
      | Inr s \<Rightarrow> Inr (title_case s))"

text \<open>Lines 76 and 82-88: \<^verbatim>\<open>title\<close>.\<close>

definition build_title :: "pydict \<Rightarrow> string \<Rightarrow> pyval" where
  "build_title plugin_args theme =
     (let title_prefix = dict_get plugin_args ''title_prefix'' (PStr []);
          title =
            (if truthy title_prefix
             then PStr (py_str title_prefix @ '' Tinct Colour Palette ('' @ theme @ '' Theme)'')
             else PStr (''Tinct Colour Palette ('' @ theme @ '' Theme)''))
      in if dict_has plugin_args ''title'' then dict_get plugin_args ''title'' PNone else title)"

text \<open>Lines 94-108.\<close>

definition role_order :: "(string \<times> string) list" where
  "role_order =
     [ (''background'', ''Background''),
       (''backgroundMuted'', ''Background Muted''),
       (''foreground'', ''Foreground''),
       (''foregroundMuted'', ''Foreground Muted''),
       (''accent1'', ''Accent 1''),
       (''accent2'', ''Accent 2''),
       (''accent3'', ''Accent 3''),
       (''accent4'', ''Accent 4''),
       (''danger'', ''Danger''),
       (''warning'', ''Warning''),
       (''success'', ''Success''),
       (''info'', ''Info''),
       (''notification'', ''Notification'') ]"

text \<open>
  Line 111, \<^verbatim>\<open>role_key in colors\<close>: a key of a dict, an element of a list, a piece of
  a str; anything else is not iterable.
\<close>

fun py_in :: "string \<Rightarrow> pyval \<Rightarrow> py_exn + bool" where
  "py_in k (PDict d) = Inr (dict_has d k)"
| "py_in k (PList vs) = Inr (PStr k \<in> set vs)"
| "py_in k (PStr s) = Inr (str_contains k s)"
| "py_in k v = Inl TypeError"

text \<open>
  Line 112, \<^verbatim>\<open>colors[role_key]\<close> with a str key: the value in a dict
  (\<^verbatim>\<open>KeyError\<close> without the key); a list and a str take integer indices only.
\<close>

fun py_subscript :: "pyval \<Rightarrow> string \<Rightarrow> py_exn + pyval" where
  "py_subscript (PDict d) k =
     (case map_of d k of None \<Rightarrow> Inl KeyError | Some v \<Rightarrow> Inr v)"
| "py_subscript v k = Inl TypeError"

text \<open>
  Line 113, \<^verbatim>\<open>color_data.get("hex", "").upper()\<close>: only a dict has \<^verbatim>\<open>get\<close>, only
  a str has \<^verbatim>\<open>upper\<close>.
\<close>

fun get_hex :: "pyval \<Rightarrow> py_exn + pyval" where
  "get_hex (PDict d) = Inr (dict_get d ''hex'' (PStr []))"
| "get_hex v = Inl AttributeError"

fun py_upper :: "pyval \<Rightarrow> py_exn + string" where
  "py_upper (PStr s) = Inr (upper s)"
| "py_upper v = Inl AttributeError"

text \<open>Lines 111-115: the body of the loop, returning the grown \<^verbatim>\<open>body_lines\<close>.\<close>

definition role_step ::
  "pyval \<Rightarrow> pyval \<Rightarrow> string \<times> string \<Rightarrow> string list \<Rightarrow> py_exn + string list" where
  "role_step colors show_hex role body_lines =
     (case role of (role_key, role_label) \<Rightarrow>
      (case py_in role_key colors of
         Inl e \<Rightarrow> Inl e
       | Inr present \<Rightarrow>
           if present then
             (case py_subscript colors role_key of
                Inl e \<Rightarrow> Inl e
              | Inr color_data \<Rightarrow>
                  (case get_hex color_data of
                     Inl e \<Rightarrow> Inl e
                   | Inr h \<Rightarrow>
                       (case py_upper h of
                          Inl e \<Rightarrow> Inl e
                        | Inr hex_color \<Rightarrow>
                            if hex_color \<noteq> [] \<and> truthy show_hex
                            then Inr (body_lines @ [''  '' @ role_label @ '': '' @ hex_color])
                            else Inr body_lines)))
           else Inr body_lines))"

text \<open>Line 110: the loop over \<^verbatim>\<open>role_order\<close>.\<close>

fun role_loop ::
  "pyval \<Rightarrow> pyval \<Rightarrow> (string \<times> string) list \<Rightarrow> string list \<Rightarrow> py_exn + string list" where
  "role_loop colors show_hex [] body_lines = Inr body_lines"
| "role_loop colors show_hex (role # roles) body_lines =
     (case role_step colors show_hex role body_lines of
        Inl e \<Rightarrow> Inl e
      | Inr body_lines' \<Rightarrow> role_loop colors show_hex roles body_lines')"

text \<open>\<^verbatim>\<open>len(x)\<close>: a str, a list and a dict have a length.\<close>

fun py_len :: "pyval \<Rightarrow> py_exn + nat" where
  "py_len (PStr s) = Inr (length s)"
| "py_len (PList vs) = Inr (length vs)"
| "py_len (PDict kvs) = Inr (length kvs)"
| "py_len v = Inl TypeError"

text \<open>Lines 118-119.\<close>

definition count_step :: "pyval \<Rightarrow> pyval \<Rightarrow> string list \<Rightarrow> py_exn + string list" where
  "count_step all_colors show_count body_lines =
     (if truthy all_colors \<and> truthy show_count then
        (case py_len all_colors of
           Inl e \<Rightarrow> Inl e
         | Inr n \<Rightarrow>
             Inr (body_lines @ [[NL] @ ''Total colours extracted: '' @ str_int (int n)]))
      else Inr body_lines)"

text \<open>Lines 122-123.\<close>

definition message_step :: "pydict \<Rightarrow> string list \<Rightarrow> string list" where
  "message_step plugin_args body_lines =
     (if dict_has plugin_args ''message''
      then body_lines @ [[NL] @ py_str (dict_get plugin_args ''message'' PNone)]
      else body_lines)"

record notification =
  n_title :: pyval
  n_body_lines :: "string list"
  n_body :: string

text \<open>
  Lines 65-125 of \<^verbatim>\<open>send_notification\<close>: from the palette and the plugin arguments
  to the title, the lines of the body and the body.
\<close>

definition compose :: "pydict \<Rightarrow> pydict \<Rightarrow> py_exn + notification" where
  "compose palette plugin_args =
     (let colors = py_or (dict_get palette ''colours'' PNone) (PDict []);
          all_colors = py_or (dict_get palette ''all_colours'' PNone) (PList [])
      in case theme_str palette of
           Inl e \<Rightarrow> Inl e
         | Inr theme \<Rightarrow>
             (let show_hex = dict_get plugin_args ''show_hex'' (PBool True);
                  show_count = dict_get plugin_args ''show_count'' (PBool True);
                  title = build_title plugin_args theme
              in case role_loop colors show_hex role_order [] of
                   Inl e \<Rightarrow> Inl e
                 | Inr lines1 \<Rightarrow>
                     (case count_step all_colors show_count lines1 of
                        Inl e \<Rightarrow> Inl e
                      | Inr lines2 \<Rightarrow>
                          (let body_lines = message_step plugin_args lines2
                           in Inr \<lparr> n_title = title, n_body_lines = body_lines,
                                    n_body = str_join [NL] body_lines \<rparr>))))"

subsection \<open>Building the command (lines 74-80 and 128-145)\<close>

definition build_cmd :: "pydict \<Rightarrow> notification \<Rightarrow> pyval list" where
  "build_cmd plugin_args n =
     (let urgency = dict_get plugin_args ''urgency'' (PStr ''normal'');
          timeout = dict_get plugin_args ''timeout'' (PInt 10000);
          app_name = dict_get plugin_args ''app_name'' (PStr ''Tinct'');
          icon = dict_get plugin_args ''icon'' (PStr ''preferences-desktop-theme'')
      in [PStr ''notify-send'']
         @ (if truthy app_name then [PStr ''-a'', app_name] else [])
         @ (if truthy icon then [PStr ''-i'', icon] else [])
         @ [PStr ''-u'', urgency]
         @ [PStr ''-t'', PStr (py_str timeout)]
         @ [n_title n, PStr (n_body n)])"

text \<open>
  \<^verbatim>\<open>' '.join(cmd)\<close>: the join raises \<^verbatim>\<open>TypeError\<close> at an item that is no str.
\<close>

fun str_items :: "pyval list \<Rightarrow> string list option" where
  "str_items [] = Some []"
| "str_items (PStr s # vs) = map_option ((#) s) (str_items vs)"
| "str_items (v # vs) = None"

definition join_cmd :: "pyval list \<Rightarrow> py_exn + string" where
  "join_cmd cmd =
     (case str_items cmd of None \<Rightarrow> Inl TypeError | Some ss \<Rightarrow> Inr (str_join '' '' ss))"

subsection \<open>Dry run and live run (lines 147-191)\<close>

definition dry_run_report :: "pydict \<Rightarrow> notification \<Rightarrow> pyval list \<Rightarrow> event list \<times> outcome" where
  "dry_run_report plugin_args n cmd =
     (let urgency = dict_get plugin_args ''urgency'' (PStr ''normal'');
          timeout = dict_get plugin_args ''timeout'' (PInt 10000);
          app_name = dict_get plugin_args ''app_name'' (PStr ''Tinct'');
          icon = dict_get plugin_args ''icon'' (PStr ''preferences-desktop-theme'');
          head = [Stdout ''=== DRY-RUN MODE ==='',
                  Stdout ''Would send notification with command:'']
      in case join_cmd cmd of
           Inl e \<Rightarrow> (head, Raised e)
         | Inr line \<Rightarrow>
             (head @
              [Stdout (''  '' @ line),
               Stdout ([NL] @ ''Title: '' @ py_str (n_title n)),
               Stdout (''Body:'' @ [NL] @ n_body n),
               Stdout ([NL] @ ''Settings:''),
               Stdout (''  Urgency: '' @ py_str urgency),
               Stdout (''  Timeout: '' @ py_str timeout @ ''ms''),
               Stdout (''  App Name: '' @ py_str app_name),
               Stdout (''  Icon: '' @ py_str icon),
               Stdout ''===================''],
              Returned))"

text \<open>The check mark and the cross of the messages, U+2713 and U+2717, in UTF-8.\<close>

definition check_mark :: string where
  "check_mark = [CHR 0xE2, CHR 0x9C, CHR 0x93]"

definition cross_mark :: string where
  "cross_mark = [CHR 0xE2, CHR 0x9C, CHR 0x97]"

definition live_send ::
  "(pyval list \<Rightarrow> run_result) \<Rightarrow> pydict \<Rightarrow> notification \<Rightarrow> pyval list \<Rightarrow> event list \<times> outcome"
  where
  "live_send notifier plugin_args n cmd =
     (let icon = dict_get plugin_args ''icon'' (PStr ''preferences-desktop-theme'') in
      case notifier cmd of
        Completed \<Rightarrow>
          (let sent = [Subprocess cmd, Stdout (check_mark @ '' Notification sent successfully'')]
           in if truthy (dict_get plugin_args ''verbose'' (PBool False)) then
                (case join_cmd cmd of
                   Inl e \<Rightarrow> (sent, Raised e)
                 | Inr line \<Rightarrow>
                     (sent @
                      [Stdout (''  Command: '' @ line),
                       Stdout (''  Title: '' @ py_str (n_title n)),
                       Stdout (''  Icon: '' @ py_str icon),
                       Stdout (''  Colours shown: '' @
                         str_int (int (length (filter (\<lambda>line. CHR '':'' \<in> set line)
                                                      (n_body_lines n)))))],
                      Returned))
              else (sent, Returned))
      | CalledProcessError msg err \<Rightarrow>
          ([Subprocess cmd,
            Stderr (cross_mark @ '' Error: Failed to send notification: '' @ msg)]
           @ (if err \<noteq> [] then [Stderr (''  stderr: '' @ err)] else []),
           SysExit 1)
      | FileNotFoundError \<Rightarrow>
          ([Subprocess cmd,
            Stderr (cross_mark @ '' Error: notify-send command not found. Please install libnotify.''),
            Stderr ''  Ubuntu/Debian: sudo apt-get install libnotify-bin'',
            Stderr ''  Arch: sudo pacman -S libnotify'',
            Stderr ''  Fedora: sudo dnf install libnotify''],
           SysExit 1)
      | RunRaised e \<Rightarrow> ([Subprocess cmd], Raised e))"

text \<open>\<^verbatim>\<open>send_notification\<close> (lines 54-191).\<close>

definition send_notification ::
  "(pyval list \<Rightarrow> run_result) \<Rightarrow> pydict \<Rightarrow> pydict \<Rightarrow> pyval \<Rightarrow> event list \<times> outcome" where
  "send_notification notifier palette plugin_args dry_run =
     (case compose palette plugin_args of
        Inl e \<Rightarrow> ([], Raised e)
      | Inr n \<Rightarrow>
          (let cmd = build_cmd plugin_args n in
           if truthy dry_run then dry_run_report plugin_args n cmd
           else live_send notifier plugin_args n cmd))"

subsection \<open>Validation and the entry point (lines 194-255)\<close>

abbreviation SQ :: char where
  "SQ \<equiv> CHR 0x27"

definition validate_palette :: "pyval \<Rightarrow> event list \<times> bool" where
  "validate_palette palette =
     (case palette of
        PDict d \<Rightarrow>
          if \<not> dict_has d ''colours'' \<and> \<not> dict_has d ''all_colours'' then
            ([Stderr (''Error: Invalid palette - missing '' @ [SQ] @ ''colours'' @ [SQ]
                      @ '' or '' @ [SQ] @ ''all_colours'' @ [SQ] @ '' field'')], False)
          else ([], True)
      | _ \<Rightarrow> ([Stderr ''Error: Invalid palette format - expected JSON object''], False))"

text \<open>Lines 244-252: the banner of a verbose run or a dry run.\<close>

definition banner :: "pydict \<Rightarrow> pyval \<Rightarrow> event list" where
  "banner plugin_args dry_run =
     [Stdout ([NL] @ replicate 50 CHR ''=''),
      Stdout (''Tinct Notify-Send Plugin v'' @ py_str (dict_get PLUGIN_INFO ''version'' PNone)),
      Stdout (replicate 50 CHR ''=''),
      Stdout (''Dry-run mode: '' @ py_str dry_run),
      Stdout (''Plugin args: '' @
              (if plugin_args \<noteq> [] then json_dumps 0 (PDict plugin_args) else ''none'')),
      Stdout (replicate 50 CHR ''='' @ [NL])]"

text \<open>
  \<^verbatim>\<open>main\<close>, for the argument vector, what reading standard input gives, and the
  host's notifier. \<^verbatim>\<open>get\<close> on a value that is no dict raises \<^verbatim>\<open>AttributeError\<close>.
\<close>

definition main ::
  "string list \<Rightarrow> stdin_result \<Rightarrow> (pyval list \<Rightarrow> run_result) \<Rightarrow> event list \<times> outcome" where
  "main argv stdin notifier =
     (if length argv > 1 \<and> argv ! 1 = ''--plugin-info'' then (show_plugin_info, SysExit 0)
      else
        (case stdin of
           JSONDecodeError e \<Rightarrow>
             ([ReadStdin, Stderr (''Error: Failed to parse JSON input: '' @ e)], SysExit 1)
         | ReadFailure e \<Rightarrow>
             ([ReadStdin, Stderr (''Error: Failed to read input: '' @ e)], SysExit 1)
         | Loaded palette_data \<Rightarrow>
             (case validate_palette palette_data of
                (errs, False) \<Rightarrow> ([ReadStdin] @ errs, SysExit 1)
              | (errs, True) \<Rightarrow>
                  (case palette_data of
                     PDict palette \<Rightarrow>
                       (let plugin_args = dict_get palette ''plugin_args'' (PDict []);
                            dry_run = dict_get palette ''dry_run'' (PBool False)
                        in case plugin_args of
                             PDict args \<Rightarrow>
                               (let shown =
                                      (if truthy (dict_get args ''verbose'' (PBool False))
                                          \<or> truthy dry_run
                                       then banner args dry_run else [])
                                in case send_notification notifier palette args dry_run of
                                     (evs, out) \<Rightarrow> ([ReadStdin] @ errs @ shown @ evs, out))
                           | _ \<Rightarrow> ([ReadStdin] @ errs, Raised AttributeError))
                   | _ \<Rightarrow> ([ReadStdin] @ errs, Raised AttributeError)))))"

section \<open>Conditions on the input and the specification's wording\<close>


fun is_str :: "pyval \<Rightarrow> bool" where
  "is_str (PStr s) = True"
| "is_str v = False"

text \<open>A colour record: a dict whose \<^verbatim>\<open>hex\<close> is absent or a str.\<close>

definition hex_ok :: "pyval \<Rightarrow> bool" where
  "hex_ok v = (case v of PDict r \<Rightarrow> is_str (dict_get r ''hex'' (PStr [])) | _ \<Rightarrow> False)"

text \<open>
  A role passes the loop: in a dict the role is absent or bound to a colour record; a
  list or a str must not contain the role key (the subscript would raise); nothing else
  can be searched.
\<close>

fun role_ok :: "pyval \<Rightarrow> string \<Rightarrow> bool" where
  "role_ok (PDict d) k = (case map_of d k of None \<Rightarrow> True | Some v \<Rightarrow> hex_ok v)"
| "role_ok (PList vs) k = (PStr k \<notin> set vs)"
| "role_ok (PStr s) k = (\<not> str_contains k s)"
| "role_ok v k = False"

fun sized :: "pyval \<Rightarrow> bool" where
  "sized (PStr s) = True"
| "sized (PList vs) = True"
| "sized (PDict kvs) = True"
| "sized v = False"

text \<open>
  The role lines in the specification's words (section 4.3, step 3a and step 4): the hex
  value of a role is empty when the role is absent from \<^verbatim>\<open>colours\<close> or its record has
  no hex; for each role of the canonical order with a non-empty hex value there is the
  line of two spaces, the label, a colon, a space and the hex value in upper case.
\<close>

definition role_hex :: "pyval \<Rightarrow> string \<Rightarrow> string" where
  "role_hex colours k =
     (case colours of
        PDict d \<Rightarrow>
          (case map_of d k of
             Some (PDict r) \<Rightarrow> (case map_of r ''hex'' of Some (PStr h) \<Rightarrow> h | _ \<Rightarrow> [])
           | _ \<Rightarrow> [])
      | _ \<Rightarrow> [])"

definition spec_role_lines :: "pyval \<Rightarrow> (string \<times> string) list \<Rightarrow> string list" where
  "spec_role_lines colours roles =
     map (\<lambda>(k, lbl). ''  '' @ lbl @ '': '' @ upper (role_hex colours k))
         (filter (\<lambda>(k, lbl). role_hex colours k \<noteq> []) roles)"





text \<open>A text between double quotes, to write JSON output down.\<close>

definition quoted :: "string \<Rightarrow> string" where
  "quoted s = [CHR 0x22] @ s @ [CHR 0x22]"

text \<open>A host whose notifier completes, for the closed examples.\<close>

definition completing :: "pyval list \<Rightarrow> run_result" where
  "completing cmd = Completed"

section \<open>Properties\<close>

subsection \<open>Lookups\<close>

lemma dict_get_Some: "map_of d k = Some v \<Longrightarrow> dict_get d k dflt = v"
  by (simp add: dict_get_def)

lemma dict_get_None: "map_of d k = None \<Longrightarrow> dict_get d k dflt = dflt"
  by (simp add: dict_get_def)

lemma dict_has_iff: "dict_has d k = (map_of d k \<noteq> None)"
  by (simp add: dict_has_def split: option.splits)

lemma dict_has_keys: "dict_has d k = (k \<in> fst ` set d)"
  by (simp add: dict_has_iff map_of_eq_None_iff)

subsection \<open>The theme label\<close>

lemma title_case_auto: "title_case ''auto'' = ''Auto''"
  by code_simp

lemma title_case_dark: "title_case ''dark'' = ''Dark''"
  by code_simp

lemma title_case_light: "title_case ''light'' = ''Light''"
  by code_simp

lemma title_case_unknown: "title_case ''unknown'' = ''Unknown''"
  by code_simp

text \<open>
  Claim C5. For every integer \<open>theme_type\<close> of the palette the theme label is
  \<open>Auto\<close> for 0, \<open>Dark\<close> for 1, \<open>Light\<close> for 2 and \<open>Unknown\<close> for every other
  integer.
\<close>

theorem theme_label_of_int:
  "map_of palette ''theme_type'' = Some (PInt n) \<Longrightarrow>
   theme_str palette =
     Inr (if n = 0 then ''Auto'' else if n = 1 then ''Dark''
          else if n = 2 then ''Light'' else ''Unknown'')"
  by (simp add: theme_str_def dict_get_def title_case_auto title_case_dark
        title_case_light title_case_unknown)

theorem theme_label_of_int_witness:
  "map_of [(''theme_type'', PInt 7)] ''theme_type'' = Some (PInt 7) \<and>
   theme_str [(''theme_type'', PInt 7)] = Inr ''Unknown''"
  using theme_label_of_int [of "[(''theme_type'', PInt 7)]" 7] by simp

subsection \<open>The steps of the composition\<close>

lemma upper_Nil_iff: "(upper h = []) = (h = [])"
  by (simp add: upper_def)

lemma role_step_iff:
  "(role_step colors sh (k, lbl) acc = Inr ls) =
   (role_ok colors k \<and>
    ls = acc @ (if truthy sh then spec_role_lines colors [(k, lbl)] else []))"
  apply (cases colors)
  apply (auto simp: role_step_def spec_role_lines_def role_hex_def hex_ok_def dict_has_def dict_get_def upper_Nil_iff
         split: option.splits sum.splits pyval.splits)
  done

lemma spec_role_lines_Cons:
  "spec_role_lines c (r # rs) = spec_role_lines c [r] @ spec_role_lines c rs"
  by (simp add: spec_role_lines_def)

lemma spec_role_lines_Nil: "spec_role_lines c [] = []"
  by (simp add: spec_role_lines_def)

lemma role_loop_iff:
  "(role_loop colors sh roles acc = Inr ls) =
   (list_all (\<lambda>r. role_ok colors (fst r)) roles \<and>
    ls = acc @ (if truthy sh then spec_role_lines colors roles else []))"
proof (induction roles arbitrary: acc)
  case Nil
  show ?case by (auto simp: spec_role_lines_Nil)
next
  case (Cons r roles)
  obtain k lbl where r: "r = (k, lbl)" by (cases r)
  show ?case
  proof (cases "role_step colors sh (k, lbl) acc")
    case (Inl e)
    then have "\<not> role_ok colors k"
      using role_step_iff [of colors sh k lbl acc] by auto
    with Inl r show ?thesis by simp
  next
    case (Inr mid)
    then have ok: "role_ok colors k"
      and mid: "mid = acc @ (if truthy sh then spec_role_lines colors [(k, lbl)] else [])"
      using role_step_iff [of colors sh k lbl acc mid] by auto
    have "spec_role_lines colors ((k, lbl) # roles) =
            spec_role_lines colors [(k, lbl)] @ spec_role_lines colors roles"
      by (rule spec_role_lines_Cons)
    with Inr r ok mid Cons.IH [of mid] show ?thesis by auto
  qed
qed


lemma count_step_iff:
  "(count_step ac sc acc = Inr ls) =
   ((if truthy ac \<and> truthy sc then sized ac else True) \<and>
    ls = acc @ (if truthy ac \<and> truthy sc
                then (case py_len ac of Inr n \<Rightarrow> [[NL] @ ''Total colours extracted: '' @ str_int (int n)] | Inl e \<Rightarrow> [])
                else []))"
  by (cases ac) (auto simp: count_step_def)

lemma compose_Inr_iff:
  "(compose palette plugin_args = Inr n) =
   (\<exists>theme lines1 lines2.
      theme_str palette = Inr theme \<and>
      role_loop (py_or (dict_get palette ''colours'' PNone) (PDict []))
        (dict_get plugin_args ''show_hex'' (PBool True)) role_order [] = Inr lines1 \<and>
      count_step (py_or (dict_get palette ''all_colours'' PNone) (PList []))
        (dict_get plugin_args ''show_count'' (PBool True)) lines1 = Inr lines2 \<and>
      n = \<lparr> n_title = build_title plugin_args theme,
            n_body_lines = message_step plugin_args lines2,
            n_body = str_join [NL] (message_step plugin_args lines2) \<rparr>)"
  by (auto simp: compose_def Let_def split: sum.splits)


lemma str_items_append:
  "str_items (xs @ ys) =
     (case str_items xs of None \<Rightarrow> None
      | Some a \<Rightarrow> (case str_items ys of None \<Rightarrow> None | Some b \<Rightarrow> Some (a @ b)))"
  by (induction xs rule: str_items.induct) (auto split: option.splits)






lemma validate_palette_dict:
  "snd (validate_palette (PDict d)) = (dict_has d ''colours'' \<or> dict_has d ''all_colours'')"
  by (simp add: validate_palette_def)

lemma validate_palette_ok:
  "snd (validate_palette v) \<Longrightarrow> validate_palette v = ([], True)"
  by (auto simp: validate_palette_def split: pyval.splits if_splits)

lemma main_loaded_dict:
  assumes "\<not> (1 < length argv \<and> argv ! 1 = ''--plugin-info'')"
    and "snd (validate_palette (PDict palette))"
    and "dict_get palette ''plugin_args'' (PDict []) = PDict args"
  shows "main argv (Loaded (PDict palette)) notifier =
         ([ReadStdin]
          @ (if truthy (dict_get args ''verbose'' (PBool False))
                \<or> truthy (dict_get palette ''dry_run'' (PBool False))
             then banner args (dict_get palette ''dry_run'' (PBool False)) else [])
          @ fst (send_notification notifier palette args (dict_get palette ''dry_run'' (PBool False))),
          snd (send_notification notifier palette args (dict_get palette ''dry_run'' (PBool False))))"
  using assms(1,3) validate_palette_ok [OF assms(2)]
  by (auto simp: main_def Let_def split: prod.splits)





lemma compose_title:
  "compose palette args = Inr n \<Longrightarrow> \<exists>theme. theme_str palette = Inr theme \<and> n_title n = build_title args theme"
  by (auto simp: compose_Inr_iff)


subsection \<open>When the composition succeeds\<close>




subsection \<open>The dry run\<close>




subsection \<open>Decimal digits and the default run\<close>

lemma digit_char_0: "digit_char 0 = CHR ''0''"
  by code_simp

lemma digit_char_1: "digit_char (Suc 0) = CHR ''1''"
  by code_simp

lemma digit_char_5: "digit_char 5 = CHR ''5''"
  by code_simp

lemma str_int_10000: "str_int 10000 = ''10000''"
  by (simp add: str_int_def str_nat.simps digit_char_0 digit_char_1)

lemma str_int_5: "str_int 5 = ''5''"
  by (simp add: str_int_def str_nat.simps digit_char_5)

lemma compose_colours_empty:
  "compose [(''colours'', PDict [])] [] =
     Inr \<lparr> n_title = PStr ''Tinct Colour Palette (Auto Theme)'', n_body_lines = [], n_body = [] \<rparr>"
  by code_simp

lemma build_cmd_defaults:
  "build_cmd [] \<lparr> n_title = t, n_body_lines = ls, n_body = b \<rparr> =
     [PStr ''notify-send'', PStr ''-a'', PStr ''Tinct'',
      PStr ''-i'', PStr ''preferences-desktop-theme'',
      PStr ''-u'', PStr ''normal'', PStr ''-t'', PStr ''10000'', t, PStr b]"
  by (simp add: build_cmd_def dict_get_def str_int_10000)

lemma send_colours_empty:
  "send_notification notifier [(''colours'', PDict [])] [] (PBool False) =
     live_send notifier []
       \<lparr> n_title = PStr ''Tinct Colour Palette (Auto Theme)'', n_body_lines = [], n_body = [] \<rparr>
       [PStr ''notify-send'', PStr ''-a'', PStr ''Tinct'',
        PStr ''-i'', PStr ''preferences-desktop-theme'',
        PStr ''-u'', PStr ''normal'', PStr ''-t'', PStr ''10000'',
        PStr ''Tinct Colour Palette (Auto Theme)'', PStr []]"
  unfolding send_notification_def compose_colours_empty
  by (simp add: build_cmd_defaults)

lemma main_colours_empty:
  "main [prog] (Loaded (PDict [(''colours'', PDict [])])) notifier =
     ([ReadStdin] @ fst (send_notification notifier [(''colours'', PDict [])] [] (PBool False)),
      snd (send_notification notifier [(''colours'', PDict [])] [] (PBool False)))"
proof -
  have a: "\<not> (1 < length [prog] \<and> [prog] ! 1 = ''--plugin-info'')" by simp
  have v: "snd (validate_palette (PDict [(''colours'', PDict [])]))"
    by (simp add: validate_palette_def dict_has_def)
  have p: "dict_get [(''colours'', PDict [])] ''plugin_args'' (PDict []) = PDict []"
    by (simp add: dict_get_def)
  have d: "dict_get [(''colours'', PDict [])] ''dry_run'' (PBool False) = PBool False"
    by (simp add: dict_get_def)
  have e: "dict_get [] ''verbose'' (PBool False) = PBool False"
    by (simp add: dict_get_def)
  show ?thesis
    unfolding main_loaded_dict [OF a v p] d e by simp
qed

subsection \<open>The lines of the body\<close>

lemma spec_role_lines_py_or:
  "spec_role_lines (py_or v (PDict [])) roles = spec_role_lines v roles"
  by (cases v) (auto simp: py_or_def spec_role_lines_def role_hex_def)

lemma message_step_append: "message_step args ls = ls @ message_step args []"
  by (simp add: message_step_def)


lemma compose_body_lines:
  assumes "compose palette plugin_args = Inr n"
  shows "n_body_lines n =
           (if truthy (dict_get plugin_args ''show_hex'' (PBool True))
            then spec_role_lines (dict_get palette ''colours'' PNone) role_order else [])
           @ (if truthy (py_or (dict_get palette ''all_colours'' PNone) (PList []))
                 \<and> truthy (dict_get plugin_args ''show_count'' (PBool True))
              then (case py_len (py_or (dict_get palette ''all_colours'' PNone) (PList [])) of
                      Inr k \<Rightarrow> [[NL] @ ''Total colours extracted: '' @ str_int (int k)]
                    | Inl e \<Rightarrow> [])
              else [])
           @ message_step plugin_args []"
  using assms
  unfolding compose_Inr_iff role_loop_iff count_step_iff
  by (auto simp: spec_role_lines_py_or message_step_append [of plugin_args "_ @ _"]
                 message_step_append [of plugin_args "spec_role_lines _ _"])

lemma compose_body: "compose palette plugin_args = Inr n \<Longrightarrow> n_body n = str_join [NL] (n_body_lines n)"
  by (auto simp: compose_Inr_iff)

lemma compose_cong:
  assumes "map_of palette' ''theme_type'' = map_of palette ''theme_type''"
    and "py_or (dict_get palette' ''colours'' PNone) (PDict []) = py_or (dict_get palette ''colours'' PNone) (PDict [])"
    and "py_or (dict_get palette' ''all_colours'' PNone) (PList []) = py_or (dict_get palette ''all_colours'' PNone) (PList [])"
  shows "compose palette' plugin_args = compose palette plugin_args"
proof -
  have "theme_str palette' = theme_str palette"
    using assms(1) by (simp add: theme_str_def dict_get_def)
  with assms(2,3) show ?thesis by (simp add: compose_def)
qed

lemma plugin_info_json:
  "json_dumps 0 (PDict PLUGIN_INFO) =
     str_join [NL]
       [''{'',
        ''  '' @ quoted ''name'' @ '': '' @ quoted ''notify-send'' @ '','',
        ''  '' @ quoted ''type'' @ '': '' @ quoted ''output'' @ '','',
        ''  '' @ quoted ''version'' @ '': '' @ quoted ''1.0.1'' @ '','',
        ''  '' @ quoted ''description'' @ '': ''
             @ quoted ''Send desktop notifications with colour palette information'' @ '','',
        ''  '' @ quoted ''enabled'' @ '': false,'',
        ''  '' @ quoted ''author'' @ '': '' @ quoted ''Tinct Contributors'' @ '','',
        ''  '' @ quoted ''requires'' @ '': ['',
        ''    '' @ quoted ''notify-send'',
        ''  ]'',
        ''}'']"
  by code_simp

subsection \<open>Validation\<close>

text \<open>
  Claim C2. Validation accepts exactly the dicts that have the key \<open>colours\<close> or the
  key \<open>all_colours\<close>. On \<^verbatim>\<open>{}\<close> the run prints the missing-field error to
  standard error and ends with exit status 1. \<^verbatim>\<open>{"colours": {}}\<close> is accepted
  without a message, its composition gives the default title and an empty body, and the
  run goes on to call the notifier with the composed command.
\<close>

theorem validation_accepts_iff:
  "snd (validate_palette v) =
     (\<exists>d. v = PDict d \<and> (''colours'' \<in> fst ` set d \<or> ''all_colours'' \<in> fst ` set d))
   \<and> main [prog] (Loaded (PDict [])) notifier =
       ([ReadStdin,
         Stderr (''Error: Invalid palette - missing '' @ [SQ] @ ''colours'' @ [SQ]
                 @ '' or '' @ [SQ] @ ''all_colours'' @ [SQ] @ '' field'')],
        SysExit 1)
   \<and> exit_status (snd (main [prog] (Loaded (PDict [])) notifier)) = 1
   \<and> validate_palette (PDict [(''colours'', PDict [])]) = ([], True)
   \<and> compose [(''colours'', PDict [])] [] =
       Inr \<lparr> n_title = PStr ''Tinct Colour Palette (Auto Theme)'',
             n_body_lines = [], n_body = [] \<rparr>
   \<and> main [prog] (Loaded (PDict [(''colours'', PDict [])])) notifier =
       ([ReadStdin]
        @ fst (live_send notifier []
                 \<lparr> n_title = PStr ''Tinct Colour Palette (Auto Theme)'',
                   n_body_lines = [], n_body = [] \<rparr>
                 [PStr ''notify-send'', PStr ''-a'', PStr ''Tinct'',
                  PStr ''-i'', PStr ''preferences-desktop-theme'',
                  PStr ''-u'', PStr ''normal'', PStr ''-t'', PStr ''10000'',
                  PStr ''Tinct Colour Palette (Auto Theme)'', PStr []]),
        snd (live_send notifier []
                 \<lparr> n_title = PStr ''Tinct Colour Palette (Auto Theme)'',
                   n_body_lines = [], n_body = [] \<rparr>
                 [PStr ''notify-send'', PStr ''-a'', PStr ''Tinct'',
                  PStr ''-i'', PStr ''preferences-desktop-theme'',
                  PStr ''-u'', PStr ''normal'', PStr ''-t'', PStr ''10000'',
                  PStr ''Tinct Colour Palette (Auto Theme)'', PStr []]))"
proof -
  have a: "snd (validate_palette v) =
     (\<exists>d. v = PDict d \<and> (''colours'' \<in> fst ` set d \<or> ''all_colours'' \<in> fst ` set d))"
    by (cases v) (simp_all add: validate_palette_def dict_has_keys)
  have b: "main [prog] (Loaded (PDict [])) notifier =
       ([ReadStdin,
         Stderr (''Error: Invalid palette - missing '' @ [SQ] @ ''colours'' @ [SQ]
                 @ '' or '' @ [SQ] @ ''all_colours'' @ [SQ] @ '' field'')],
        SysExit 1)"
    by (simp add: main_def validate_palette_def dict_has_def)
  have c: "validate_palette (PDict [(''colours'', PDict [])]) = ([], True)"
    by (simp add: validate_palette_def dict_has_def)
  have d: "main [prog] (Loaded (PDict [(''colours'', PDict [])])) notifier =
       ([ReadStdin]
        @ fst (live_send notifier []
                 \<lparr> n_title = PStr ''Tinct Colour Palette (Auto Theme)'',
                   n_body_lines = [], n_body = [] \<rparr>
                 [PStr ''notify-send'', PStr ''-a'', PStr ''Tinct'',
                  PStr ''-i'', PStr ''preferences-desktop-theme'',
                  PStr ''-u'', PStr ''normal'', PStr ''-t'', PStr ''10000'',
                  PStr ''Tinct Colour Palette (Auto Theme)'', PStr []]),
        snd (live_send notifier []
                 \<lparr> n_title = PStr ''Tinct Colour Palette (Auto Theme)'',
                   n_body_lines = [], n_body = [] \<rparr>
                 [PStr ''notify-send'', PStr ''-a'', PStr ''Tinct'',
                  PStr ''-i'', PStr ''preferences-desktop-theme'',
                  PStr ''-u'', PStr ''normal'', PStr ''-t'', PStr ''10000'',
                  PStr ''Tinct Colour Palette (Auto Theme)'', PStr []]))"
    unfolding main_colours_empty send_colours_empty by simp
  have e: "exit_status (snd (main [prog] (Loaded (PDict [])) notifier)) = 1"
    unfolding b by simp
  show ?thesis
    by (intro conjI) (rule a, rule b, rule e, rule c, rule compose_colours_empty, rule d)
qed

subsection \<open>The title\<close>

text \<open>
  Claim C3. When the plugin arguments have \<open>title\<close>, the composed title is that
  value, whatever \<open>title_prefix\<close> is. Without \<open>title\<close>, the title is the prefix,
  a space and \<open>Tinct Colour Palette (<theme> Theme)\<close> for a non-empty prefix, and
  \<open>Tinct Colour Palette (<theme> Theme)\<close> alone otherwise. (A prefix that is no text
  counts as non-empty when it is true as a condition, and is written as \<^verbatim>\<open>str\<close>
  writes it.)
\<close>

theorem title_resolution:
  assumes "compose palette plugin_args = Inr n"
  shows "\<exists>theme. theme_str palette = Inr theme
       \<and> n_title n =
           (case map_of plugin_args ''title'' of
              Some t \<Rightarrow> t
            | None \<Rightarrow>
                (case dict_get plugin_args ''title_prefix'' (PStr []) of
                   PStr p \<Rightarrow>
                     if p \<noteq> []
                     then PStr (p @ '' Tinct Colour Palette ('' @ theme @ '' Theme)'')
                     else PStr (''Tinct Colour Palette ('' @ theme @ '' Theme)'')
                 | v \<Rightarrow>
                     if truthy v
                     then PStr (py_str v @ '' Tinct Colour Palette ('' @ theme @ '' Theme)'')
                     else PStr (''Tinct Colour Palette ('' @ theme @ '' Theme)'')))"
proof -
  from assms obtain theme where t: "theme_str palette = Inr theme"
    and n: "n_title n = build_title plugin_args theme"
    using compose_title by blast
  have "build_title plugin_args theme =
           (case map_of plugin_args ''title'' of
              Some t \<Rightarrow> t
            | None \<Rightarrow>
                (case dict_get plugin_args ''title_prefix'' (PStr []) of
                   PStr p \<Rightarrow>
                     if p \<noteq> []
                     then PStr (p @ '' Tinct Colour Palette ('' @ theme @ '' Theme)'')
                     else PStr (''Tinct Colour Palette ('' @ theme @ '' Theme)'')
                 | v \<Rightarrow>
                     if truthy v
                     then PStr (py_str v @ '' Tinct Colour Palette ('' @ theme @ '' Theme)'')
                     else PStr (''Tinct Colour Palette ('' @ theme @ '' Theme)'')))"
    by (cases "dict_get plugin_args ''title_prefix'' (PStr [])")
       (simp_all add: build_title_def Let_def dict_has_def dict_get_Some split: option.splits)
  with t n show ?thesis by simp
qed

theorem title_resolution_witness:
  "compose [(''colours'', PDict [])]
           [(''title'', PStr ''New Theme!''), (''title_prefix'', PStr ''Fresh'')] =
     Inr \<lparr> n_title = PStr ''New Theme!'', n_body_lines = [], n_body = [] \<rparr>
   \<and> n_title \<lparr> n_title = PStr ''New Theme!'', n_body_lines = [], n_body = [] \<rparr> =
       PStr ''New Theme!''"
proof -
  have c: "compose [(''colours'', PDict [])]
             [(''title'', PStr ''New Theme!''), (''title_prefix'', PStr ''Fresh'')] =
           Inr \<lparr> n_title = PStr ''New Theme!'', n_body_lines = [], n_body = [] \<rparr>"
    by code_simp
  from title_resolution [OF c] obtain theme where
    "n_title \<lparr> n_title = PStr ''New Theme!'', n_body_lines = [], n_body = [] \<rparr> =
       (case map_of [(''title'', PStr ''New Theme!''), (''title_prefix'', PStr ''Fresh'')] ''title'' of
          Some t \<Rightarrow> t
        | None \<Rightarrow>
            (case dict_get [(''title'', PStr ''New Theme!''), (''title_prefix'', PStr ''Fresh'')]
                    ''title_prefix'' (PStr []) of
               PStr p \<Rightarrow>
                 if p \<noteq> []
                 then PStr (p @ '' Tinct Colour Palette ('' @ theme @ '' Theme)'')
                 else PStr (''Tinct Colour Palette ('' @ theme @ '' Theme)'')
             | v \<Rightarrow>
                 if truthy v
                 then PStr (py_str v @ '' Tinct Colour Palette ('' @ theme @ '' Theme)'')
                 else PStr (''Tinct Colour Palette ('' @ theme @ '' Theme)'')))"
    by blast
  then have "n_title \<lparr> n_title = PStr ''New Theme!'', n_body_lines = [], n_body = [] \<rparr> =
       PStr ''New Theme!''"
    by simp
  with c show ?thesis by (rule conjI)
qed

subsection \<open>The role lines\<close>



subsection \<open>The count line\<close>

text \<open>
  Claim C9. For a palette whose \<open>all_colours\<close> is the list \<open>xs\<close> (or is absent or
  null, with \<open>xs\<close> empty): when \<open>xs\<close> is non-empty and \<open>show_count\<close> is enabled,
  the lines of the body have, after the role lines, the line that begins with a newline and
  reports the length of \<open>xs\<close>; otherwise there is no count line. The body is the lines
  joined by newlines, so the count line stands after a blank line.
\<close>

theorem count_line:
  assumes "compose palette plugin_args = Inr n"
    and "dict_get palette ''all_colours'' PNone = PList xs
         \<or> (dict_get palette ''all_colours'' PNone = PNone \<and> xs = [])"
  shows "n_body_lines n =
           (if truthy (dict_get plugin_args ''show_hex'' (PBool True))
            then spec_role_lines (dict_get palette ''colours'' PNone) role_order else [])
           @ (if xs \<noteq> [] \<and> truthy (dict_get plugin_args ''show_count'' (PBool True))
              then [[NL] @ ''Total colours extracted: '' @ str_int (int (length xs))]
              else [])
           @ message_step plugin_args []
       \<and> n_body n = str_join [NL] (n_body_lines n)"
  unfolding compose_body_lines [OF assms(1)] compose_body [OF assms(1)]
  using assms(2) by (auto simp: py_or_def)

theorem count_line_witness:
  "compose [(''colours'', PDict []),
            (''all_colours'', PList [PDict [(''hex'', PStr ''#111111'')], PDict [(''hex'', PStr ''#222222'')],
                                     PDict [(''hex'', PStr ''#333333'')], PDict [(''hex'', PStr ''#444444'')],
                                     PDict [(''hex'', PStr ''#555555'')]])] [] =
     Inr \<lparr> n_title = PStr ''Tinct Colour Palette (Auto Theme)'',
           n_body_lines = [[NL] @ ''Total colours extracted: 5''],
           n_body = [NL] @ ''Total colours extracted: 5'' \<rparr>
   \<and> n_body_lines \<lparr> n_title = PStr ''Tinct Colour Palette (Auto Theme)'',
           n_body_lines = [[NL] @ ''Total colours extracted: 5''],
           n_body = [NL] @ ''Total colours extracted: 5'' \<rparr> =
       [[NL] @ ''Total colours extracted: '' @ str_int 5]"
proof -
  let ?xs = "[PDict [(''hex'', PStr ''#111111'')], PDict [(''hex'', PStr ''#222222'')],
              PDict [(''hex'', PStr ''#333333'')], PDict [(''hex'', PStr ''#444444'')],
              PDict [(''hex'', PStr ''#555555'')]]"
  let ?p = "[(''colours'', PDict []), (''all_colours'', PList ?xs)]"
  let ?n = "\<lparr> n_title = PStr ''Tinct Colour Palette (Auto Theme)'',
           n_body_lines = [[NL] @ ''Total colours extracted: 5''],
           n_body = [NL] @ ''Total colours extracted: 5'' \<rparr>"
  have c: "compose ?p [] = Inr ?n"
    by code_simp
  have a: "dict_get ?p ''all_colours'' PNone = PList ?xs
           \<or> (dict_get ?p ''all_colours'' PNone = PNone \<and> ?xs = [])"
    by (simp add: dict_get_def)
  have sc: "truthy (dict_get [] ''show_count'' (PBool True))"
    by (simp add: dict_get_def)
  have sr: "spec_role_lines (dict_get ?p ''colours'' PNone) role_order = []"
    by code_simp
  have ms: "message_step [] [] = []"
    by (simp add: message_step_def dict_has_def)
  from count_line [OF c a]
  have "n_body_lines ?n =
           (if truthy (dict_get [] ''show_hex'' (PBool True))
            then spec_role_lines (dict_get ?p ''colours'' PNone) role_order else [])
           @ (if ?xs \<noteq> [] \<and> truthy (dict_get [] ''show_count'' (PBool True))
              then [[NL] @ ''Total colours extracted: '' @ str_int (int (length ?xs))]
              else [])
           @ message_step [] []"
    by (rule conjunct1)
  then have "n_body_lines ?n = [[NL] @ ''Total colours extracted: '' @ str_int 5]"
    unfolding sr ms using sc by simp
  with c show ?thesis by (rule conjI)
qed

subsection \<open>The plugin information\<close>

text \<open>
  Claim C7. Called with \<^verbatim>\<open>--plugin-info\<close> as its only argument, the program prints
  the JSON descriptor, with the fields \<open>name\<close>, \<open>type\<close>, \<open>version\<close> and
  \<open>enabled\<close> among its fields, to standard output, ends with exit status 0 and does not
  read standard input, whatever it holds.
\<close>

theorem plugin_info_query:
  "main [prog, ''--plugin-info''] stdin notifier =
     ([Stdout (str_join [NL]
         [''{'',
          ''  '' @ quoted ''name'' @ '': '' @ quoted ''notify-send'' @ '','',
          ''  '' @ quoted ''type'' @ '': '' @ quoted ''output'' @ '','',
          ''  '' @ quoted ''version'' @ '': '' @ quoted ''1.0.1'' @ '','',
          ''  '' @ quoted ''description'' @ '': ''
               @ quoted ''Send desktop notifications with colour palette information'' @ '','',
          ''  '' @ quoted ''enabled'' @ '': false,'',
          ''  '' @ quoted ''author'' @ '': '' @ quoted ''Tinct Contributors'' @ '','',
          ''  '' @ quoted ''requires'' @ '': ['',
          ''    '' @ quoted ''notify-send'',
          ''  ]'',
          ''}''])],
      SysExit 0)
   \<and> exit_status (snd (main [prog, ''--plugin-info''] stdin notifier)) = 0
   \<and> ReadStdin \<notin> set (fst (main [prog, ''--plugin-info''] stdin notifier))"
  by (simp add: main_def show_plugin_info_def plugin_info_json del: json_dumps.simps)

subsection \<open>The command\<close>

text \<open>
  Claim C8. In a live run whose composition succeeds, the notifier is called with
  \<^verbatim>\<open>notify-send\<close>, then \<^verbatim>\<open>-a\<close> and the app name if the app name is non-empty,
  then \<^verbatim>\<open>-i\<close> and the icon if the icon is non-empty, then \<^verbatim>\<open>-u\<close> and the urgency,
  \<^verbatim>\<open>-t\<close> and the timeout as \<^verbatim>\<open>str\<close> writes it, the title and the body, in this
  order. (For a text, \<open>truthy\<close> is: not empty.)
\<close>

theorem command_arguments:
  assumes "compose palette plugin_args = Inr n" and "\<not> truthy dry_run"
  shows "\<exists>rest. fst (send_notification notifier palette plugin_args dry_run) =
           Subprocess
             ([PStr ''notify-send'']
              @ (if truthy (dict_get plugin_args ''app_name'' (PStr ''Tinct''))
                 then [PStr ''-a'', dict_get plugin_args ''app_name'' (PStr ''Tinct'')] else [])
              @ (if truthy (dict_get plugin_args ''icon'' (PStr ''preferences-desktop-theme''))
                 then [PStr ''-i'', dict_get plugin_args ''icon'' (PStr ''preferences-desktop-theme'')]
                 else [])
              @ [PStr ''-u'', dict_get plugin_args ''urgency'' (PStr ''normal''),
                 PStr ''-t'', PStr (py_str (dict_get plugin_args ''timeout'' (PInt 10000))),
                 n_title n, PStr (n_body n)])
           # rest"
  using assms
  by (cases "notifier (build_cmd plugin_args n)")
     (auto simp: send_notification_def live_send_def build_cmd_def Let_def split: sum.splits)

theorem command_arguments_witness:
  "compose [(''colours'', PDict [])] [(''app_name'', PStr []), (''urgency'', PStr ''critical'')] =
     Inr \<lparr> n_title = PStr ''Tinct Colour Palette (Auto Theme)'', n_body_lines = [], n_body = [] \<rparr>
   \<and> \<not> truthy (PBool False)
   \<and> (\<exists>rest. fst (send_notification completing [(''colours'', PDict [])]
                     [(''app_name'', PStr []), (''urgency'', PStr ''critical'')] (PBool False)) =
          Subprocess [PStr ''notify-send'', PStr ''-i'', PStr ''preferences-desktop-theme'',
                      PStr ''-u'', PStr ''critical'', PStr ''-t'', PStr ''10000'',
                      PStr ''Tinct Colour Palette (Auto Theme)'', PStr []] # rest)"
proof -
  let ?a = "[(''app_name'', PStr []), (''urgency'', PStr ''critical'')]"
  let ?n = "\<lparr> n_title = PStr ''Tinct Colour Palette (Auto Theme)'', n_body_lines = [], n_body = [] \<rparr>"
  have c: "compose [(''colours'', PDict [])] ?a = Inr ?n"
    by code_simp
  have d: "\<not> truthy (PBool False)"
    by simp
  have e: "\<exists>rest. fst (send_notification completing [(''colours'', PDict [])] ?a (PBool False)) =
          Subprocess [PStr ''notify-send'', PStr ''-i'', PStr ''preferences-desktop-theme'',
                      PStr ''-u'', PStr ''critical'', PStr ''-t'', PStr ''10000'',
                      PStr ''Tinct Colour Palette (Auto Theme)'', PStr []] # rest"
    using command_arguments [OF c d, of completing]
    by (simp add: dict_get_def str_int_10000)
  show ?thesis
    by (intro conjI) (rule c, rule d, rule e)
qed

subsection \<open>Null for colours and all_colours\<close>

text \<open>
  Claim C10. A palette that binds \<open>colours\<close> to null passes validation, the composer
  takes the null for the empty dict, the role loop adds no line and raises nothing, and the
  composition is that of the palette with \<open>colours\<close> bound to the empty dict. The same
  holds for \<open>all_colours\<close>, null and the empty list, and the count step.
\<close>

theorem null_is_empty:
  "(map_of palette ''colours'' = Some PNone \<longrightarrow>
      validate_palette (PDict palette) = ([], True)
      \<and> py_or (dict_get palette ''colours'' PNone) (PDict []) = PDict []
      \<and> role_loop (py_or (dict_get palette ''colours'' PNone) (PDict [])) show_hex role_order lines
          = Inr lines
      \<and> (\<forall>palette'. map_of palette' = (map_of palette)(''colours'' \<mapsto> PDict []) \<longrightarrow>
            compose palette plugin_args = compose palette' plugin_args))
   \<and> (map_of palette ''all_colours'' = Some PNone \<longrightarrow>
      validate_palette (PDict palette) = ([], True)
      \<and> py_or (dict_get palette ''all_colours'' PNone) (PList []) = PList []
      \<and> count_step (py_or (dict_get palette ''all_colours'' PNone) (PList [])) show_count lines
          = Inr lines
      \<and> (\<forall>palette'. map_of palette' = (map_of palette)(''all_colours'' \<mapsto> PList []) \<longrightarrow>
            compose palette plugin_args = compose palette' plugin_args))"
proof (intro conjI impI allI)
  assume c: "map_of palette ''colours'' = Some PNone"
  then show "validate_palette (PDict palette) = ([], True)"
    by (simp add: validate_palette_def dict_has_def)
  from c show e: "py_or (dict_get palette ''colours'' PNone) (PDict []) = PDict []"
    by (simp add: py_or_def dict_get_def)
  show "role_loop (py_or (dict_get palette ''colours'' PNone) (PDict [])) show_hex role_order lines
          = Inr lines"
    unfolding e role_loop_iff
    by (simp add: role_order_def spec_role_lines_def role_hex_def)
next
  fix palette'
  assume c: "map_of palette ''colours'' = Some PNone"
    and p: "map_of palette' = (map_of palette)(''colours'' \<mapsto> PDict [])"
  show "compose palette plugin_args = compose palette' plugin_args"
    by (rule compose_cong [symmetric]) (simp_all add: p c dict_get_def py_or_def)
next
  assume c: "map_of palette ''all_colours'' = Some PNone"
  then show "validate_palette (PDict palette) = ([], True)"
    by (simp add: validate_palette_def dict_has_def)
  from c show e: "py_or (dict_get palette ''all_colours'' PNone) (PList []) = PList []"
    by (simp add: py_or_def dict_get_def)
  show "count_step (py_or (dict_get palette ''all_colours'' PNone) (PList [])) show_count lines
          = Inr lines"
    unfolding e by (simp add: count_step_def)
next
  fix palette'
  assume c: "map_of palette ''all_colours'' = Some PNone"
    and p: "map_of palette' = (map_of palette)(''all_colours'' \<mapsto> PList [])"
  show "compose palette plugin_args = compose palette' plugin_args"
    by (rule compose_cong [symmetric]) (simp_all add: p c dict_get_def py_or_def)
qed

theorem null_is_empty_witness:
  "map_of [(''colours'', PNone)] ''colours'' = Some PNone
   \<and> validate_palette (PDict [(''colours'', PNone)]) = ([], True)
   \<and> compose [(''colours'', PNone)] [] = compose [(''colours'', PDict [])] []
   \<and> map_of [(''all_colours'', PNone)] ''all_colours'' = Some PNone
   \<and> validate_palette (PDict [(''all_colours'', PNone)]) = ([], True)
   \<and> compose [(''all_colours'', PNone)] [] = compose [(''all_colours'', PList [])] []"
proof -
  have h1: "map_of [(''colours'', PNone)] ''colours'' = Some PNone"
    by simp
  have m1: "map_of [(''colours'', PDict [])] = (map_of [(''colours'', PNone)])(''colours'' \<mapsto> PDict [])"
    by (rule ext) simp
  have h2: "map_of [(''all_colours'', PNone)] ''all_colours'' = Some PNone"
    by simp
  have m2: "map_of [(''all_colours'', PList [])] = (map_of [(''all_colours'', PNone)])(''all_colours'' \<mapsto> PList [])"
    by (rule ext) simp
  from null_is_empty [of "[(''colours'', PNone)]" "PBool True" "[]" "[]" "PBool True"] h1 m1
  have v1: "validate_palette (PDict [(''colours'', PNone)]) = ([], True)"
    and c1: "compose [(''colours'', PNone)] [] = compose [(''colours'', PDict [])] []"
    by blast+
  from null_is_empty [of "[(''all_colours'', PNone)]" "PBool True" "[]" "[]" "PBool True"] h2 m2
  have v2: "validate_palette (PDict [(''all_colours'', PNone)]) = ([], True)"
    and c2: "compose [(''all_colours'', PNone)] [] = compose [(''all_colours'', PList [])] []"
    by blast+
  show ?thesis
    by (intro conjI) (rule h1, rule v1, rule c1, rule h2, rule v2, rule c2)
qed

end
